theory Spec2Isabelle
  imports Complex_Main "HOL-Library.Multiset" "HOL-Library.Char_ord" "HOL-Library.List_Lexorder"
    "HOL-Library.Option_ord" "HOL-Library.Log_Nat"
begin

section \<open>EffinTrak Analytics: the dashboard script \<^verbatim>\<open>app.py\<close>\<close>

text \<open>
  The script is re-executed from top to bottom on every interaction. It is modelled as
  a function of the request's query parameters, the contents of the expense collection
  and the values returned by the widgets (the selection). Every pandas operation is
  written out on lists of rows. Every document has the five fields of an expense, with
  a date that is a timestamp. The amount column has dtype float64: an amount is the
  real number that a binary64 holds, and a sum adds the values in row order, each
  addition rounded to the nearest binary64. Missing fields, NaN and infinite amounts
  and the memoisation of the connection and of the fetch are outside the model.
\<close>

subsection \<open>Data model\<close>

text \<open>
  A pandas Timestamp is a number of nanoseconds since 1970-01-01T00:00, a
  \<^verbatim>\<open>datetime.date\<close> is a number of days since 1970-01-01.
\<close>

type_synonym timestamp = int
type_synonym pydate = int

definition ns_per_day :: int where
  "ns_per_day = 86400000000000"

text \<open>\<^verbatim>\<open>pd.Timestamp(d)\<close> for a date \<open>d\<close>: midnight at the start of that day.\<close>

definition Timestamp :: "pydate \<Rightarrow> timestamp" where
  "Timestamp d = d * ns_per_day"

text \<open>\<^verbatim>\<open>ts.date()\<close> and \<^verbatim>\<open>series.dt.date\<close>: the calendar day of a timestamp.\<close>

definition date_of :: "timestamp \<Rightarrow> pydate" where
  "date_of t = t div ns_per_day"

text \<open>A document of the expense collection.\<close>

record document =
  doc_user :: string
  doc_date :: timestamp
  doc_amount :: real
  doc_categoryName :: string
  doc_paidTo :: string

text \<open>
  A row of a DataFrame. \<open>idx\<close> is the row's index label. The columns \<open>month\<close> and
  \<open>day_of_week\<close> do not exist in the fetched table; a column that a frame lacks is
  \<open>None\<close> in each of its rows.
\<close>

record row =
  idx :: nat
  user :: string
  date :: timestamp
  amount :: real
  categoryName :: string
  paidTo :: string
  month :: "int option"
  day_of_week :: "string option"

datatype py_error = TypeError | InvalidId | ValueError | IndexError | ZeroDivisionError

text \<open>How a run of the script ends when it does not reach its last line.\<close>

datatype halt =
  Error_shown string
  | Warning_shown string
  | Uncaught py_error

subsection \<open>Identity resolution (lines 9 to 20)\<close>

text \<open>
  \<^verbatim>\<open>query_params.get("user_id", [None])\<close> is the parameter's string when the parameter
  is present and the default, the one-element list \<^verbatim>\<open>[None]\<close>, when it is absent.
\<close>

datatype qvalue = QStr string | QNoneList

definition query_params_get :: "(string \<rightharpoonup> string) \<Rightarrow> string \<Rightarrow> qvalue" where
  "query_params_get query_params k =
     (case query_params k of Some s \<Rightarrow> QStr s | None \<Rightarrow> QNoneList)"

text \<open>Python truth value: an empty string is false, the list \<^verbatim>\<open>[None]\<close> has one element and is true.\<close>

fun truthy :: "qvalue \<Rightarrow> bool" where
  "truthy (QStr s) = (s \<noteq> [])"
| "truthy QNoneList = True"

definition is_hex_digit :: "char \<Rightarrow> bool" where
  "is_hex_digit c = (c \<in> set ''0123456789abcdefABCDEF'')"

text \<open>
  Modelled from the spec: the \<^verbatim>\<open>ObjectId\<close> constructor belongs to the store's client
  library and is not part of the repository. The spec gives the identifier format as a
  24-character hex string; a string of any other form is rejected (InvalidId).
\<close>

definition oid_of_string :: "string \<Rightarrow> py_error + string" where
  "oid_of_string s =
     (if length s = 24 \<and> list_all is_hex_digit s then Inr s else Inl InvalidId)"

text \<open>
  \<^verbatim>\<open>ObjectId(user_id)\<close>, with the check of a string argument as a parameter \<open>mk\<close>.
  An argument that is a list is no identifier of any form (TypeError).
\<close>

fun ObjectId :: "(string \<Rightarrow> py_error + 'oid) \<Rightarrow> qvalue \<Rightarrow> py_error + 'oid" where
  "ObjectId mk (QStr s) = mk s"
| "ObjectId mk QNoneList = Inl TypeError"

definition resolve_user_id ::
  "(string \<Rightarrow> py_error + 'oid) \<Rightarrow> (string \<rightharpoonup> string) \<Rightarrow> halt + 'oid" where
  "resolve_user_id mk query_params =
     (let user_id = query_params_get query_params ''user_id'' in
      if \<not> truthy user_id
      then Inl (Error_shown
        ''No user ID provided. Please access this dashboard through the main application.'')
      else (case ObjectId mk user_id of
              Inl e \<Rightarrow> Inl (Error_shown ''Invalid user ID format.'')
            | Inr oid \<Rightarrow> Inr oid))"

subsection \<open>Data fetch (lines 41 to 49)\<close>

text \<open>\<^verbatim>\<open>collection.find({"user": user_id})\<close>\<close>

definition find_user :: "document list \<Rightarrow> string \<Rightarrow> document list" where
  "find_user collection user_id = filter (\<lambda>d. doc_user d = user_id) collection"

text \<open>\<^verbatim>\<open>pd.DataFrame(list(items))\<close>: one row per document, labelled 0, 1, 2, ...\<close>

definition row_of :: "nat \<Rightarrow> document \<Rightarrow> row" where
  "row_of i d =
     \<lparr>idx = i, user = doc_user d, date = doc_date d, amount = doc_amount d,
      categoryName = doc_categoryName d, paidTo = doc_paidTo d,
      month = None, day_of_week = None\<rparr>"

definition DataFrame :: "document list \<Rightarrow> row list" where
  "DataFrame items = map2 row_of [0..<length items] items"

definition get_data :: "document list \<Rightarrow> string \<Rightarrow> halt + row list" where
  "get_data collection user_id =
     (let df = DataFrame (find_user collection user_id) in
      if df = [] then Inl (Warning_shown ''No data found for the Selected User.'')
      else Inr (filter (\<lambda>r. categoryName r \<noteq> ''Home'') df))"

subsection \<open>Filter controls and filtering (lines 64 to 78)\<close>

text \<open>\<^verbatim>\<open>series.unique()\<close>: the distinct values in order of first appearance.\<close>

definition unique :: "'a list \<Rightarrow> 'a list" where
  "unique xs = rev (remdups (rev xs))"

text \<open>
  The bounds of the date slider (lines 66 to 70). The minimum of an empty column is
  NaT, which the slider cannot take as a bound: the run ends with an exception.
\<close>

definition slider_bounds :: "row list \<Rightarrow> py_error + (pydate \<times> pydate)" where
  "slider_bounds df =
     (if df = [] then Inl ValueError
      else
        let min_date = date_of (Min (set (map date df)));
            max_date = date_of (Max (set (map date df)))
        in Inr (min_date, if min_date = max_date then max_date + 1 else max_date))"

text \<open>What the widgets return.\<close>

record selection =
  categories :: "string list"
  payees :: "string list"
  date_range :: "pydate \<times> pydate"
  budget_category :: string
  budget_amount :: real
  period1 :: "pydate list"
  period2 :: "pydate list"
  top_n :: nat

text \<open>\<^verbatim>\<open>series.isin(values) if values else True\<close>\<close>

definition isin_or_all :: "'a list \<Rightarrow> 'a \<Rightarrow> bool" where
  "isin_or_all values v = (if values \<noteq> [] then v \<in> set values else True)"

definition df_filtered :: "row list \<Rightarrow> pydate \<times> pydate \<Rightarrow> string list \<Rightarrow> string list \<Rightarrow> row list" where
  "df_filtered df dr cats pays =
     filter (\<lambda>r. date r \<ge> Timestamp (fst dr) \<and> date r \<le> Timestamp (snd dr)
               \<and> isin_or_all cats (categoryName r) \<and> isin_or_all pays (paidTo r)) df"

subsection \<open>Arithmetic of the amount column\<close>

text \<open>
  The binade of a positive number \<open>x\<close> is the exponent \<open>e\<close> with \<open>2^e \<le> x < 2^(e+1)\<close>.
  A binary64 of that binade is a multiple of \<open>2^(e-52)\<close>.
\<close>

definition pow2 :: "int \<Rightarrow> real" where
  "pow2 e = (if 0 \<le> e then 2 ^ nat e else 1 / 2 ^ nat (- e))"

definition binade :: "real \<Rightarrow> int" where
  "binade x =
     (if 1 \<le> x then bitlen \<lfloor>x\<rfloor> - 1
      else
        let k = bitlen \<lfloor>1 / x\<rfloor> - 1
        in if x * 2 ^ nat k = 1 then - k else - k - 1)"

definition round_half_even :: "real \<Rightarrow> int" where
  "round_half_even z =
     (let f = \<lfloor>z\<rfloor>; d = z - of_int f
      in if d < 1 / 2 then f else if 1 / 2 < d then f + 1 else if even f then f else f + 1)"

text \<open>
  The binary64 nearest to a real number, a tie going to the even significand. A sum of
  two binary64 numbers that is not an overflow is rounded in this way, also where it
  is subnormal (it is exact there); overflow to infinity is outside the model.
\<close>

definition f64_round :: "real \<Rightarrow> real" where
  "f64_round x =
     (if x = 0 then 0
      else
        let q = pow2 (binade \<bar>x\<bar> - 52)
        in q * of_int (round_half_even (x / q)))"

definition f64_add :: "real \<Rightarrow> real \<Rightarrow> real" where
  "f64_add x y = f64_round (x + y)"

text \<open>
  \<^verbatim>\<open>series.sum()\<close> of a float64 column. The library may add in another order; the
  model takes the plain loop over the rows. (A column of whole numbers only has dtype
  int64, whose sums are exact below \<open>2^63\<close>; the two agree on whole numbers as long as
  the sums stay within \<open>2^53\<close>.)
\<close>

definition f64_sum :: "real list \<Rightarrow> real" where
  "f64_sum xs = foldl f64_add 0 xs"

subsection \<open>pandas operations on lists of rows\<close>

text \<open>
  \<^verbatim>\<open>df.groupby(key)[val].sum()\<close>: one entry per distinct key, in ascending key order,
  holding the sum of \<open>val\<close> over the rows with that key.
\<close>

definition groupby_sum :: "('r \<Rightarrow> 'k::linorder) \<Rightarrow> ('r \<Rightarrow> real) \<Rightarrow> 'r list \<Rightarrow> ('k \<times> real) list" where
  "groupby_sum key val rows =
     map (\<lambda>k. (k, f64_sum (map val (filter (\<lambda>r. key r = k) rows))))
       (sort (remdups (map key rows)))"

text \<open>
  The mean of a column; of no values it is NaN, here \<open>None\<close>. Quotients are taken
  exactly in the model, here and in the budget tracker.
\<close>

definition mean :: "real list \<Rightarrow> real option" where
  "mean xs = (if xs = [] then None else Some (f64_sum xs / real (length xs)))"

definition groupby_mean :: "('r \<Rightarrow> 'k::linorder) \<Rightarrow> ('r \<Rightarrow> real) \<Rightarrow> 'r list \<Rightarrow> ('k \<times> real option) list" where
  "groupby_mean key val rows =
     map (\<lambda>k. (k, mean (map val (filter (\<lambda>r. key r = k) rows))))
       (sort (remdups (map key rows)))"

text \<open>
  \<^verbatim>\<open>series.sort_values(ascending=False)\<close>. pandas leaves the order of equal values
  open; the model keeps them in their previous order.
\<close>

definition sort_values_desc :: "('k \<times> real) list \<Rightarrow> ('k \<times> real) list" where
  "sort_values_desc s = sort_key (\<lambda>kv. - snd kv) s"

text \<open>\<^verbatim>\<open>series.cumsum()\<close>\<close>

fun cumsum_from :: "real \<Rightarrow> real list \<Rightarrow> real list" where
  "cumsum_from acc [] = []"
| "cumsum_from acc (x # xs) = f64_add acc x # cumsum_from (f64_add acc x) xs"

definition cumsum :: "real list \<Rightarrow> real list" where
  "cumsum xs = cumsum_from 0 xs"

text \<open>
  \<^verbatim>\<open>df.nlargest(n, 'amount')\<close>: the first \<open>n\<close> rows in descending order of amount, rows
  of equal amount in their order of appearance.
\<close>

definition nlargest :: "nat \<Rightarrow> row list \<Rightarrow> row list" where
  "nlargest n rows = take n (sort_key (\<lambda>r. - amount r) rows)"

text \<open>
  \<^verbatim>\<open>series.dt.to_period('M')\<close>: the ordinal of the timestamp's calendar month, counted
  in months from January 1970. The civil date is computed from the day number.
\<close>

definition to_period_M :: "timestamp \<Rightarrow> int" where
  "to_period_M t =
     (let z = date_of t + 719468;
          era = z div 146097;
          doe = z - era * 146097;
          yoe = (doe - doe div 1460 + doe div 36524 - doe div 146096) div 365;
          doy = doe - (365 * yoe + yoe div 4 - yoe div 100);
          mp = (5 * doy + 2) div 153;
          m = (if mp < 10 then mp + 3 else mp - 9);
          y = yoe + era * 400 + (if m \<le> 2 then 1 else 0)
      in (y - 1970) * 12 + (m - 1))"

text \<open>\<^verbatim>\<open>series.dt.day_name()\<close>: 1970-01-01 was a Thursday.\<close>

definition weekdays :: "string list" where
  "weekdays = [''Monday'', ''Tuesday'', ''Wednesday'', ''Thursday'', ''Friday'',
     ''Saturday'', ''Sunday'']"

definition day_name :: "timestamp \<Rightarrow> string" where
  "day_name t = weekdays ! nat ((date_of t + 3) mod 7)"

subsection \<open>Budget tracker (lines 85 to 89)\<close>

text \<open>Division, with the division by zero as an error of its own.\<close>

definition py_div :: "real \<Rightarrow> real \<Rightarrow> py_error + real" where
  "py_div a b = (if b = 0 then Inl ZeroDivisionError else Inr (a / b))"

definition category_spent :: "row list \<Rightarrow> string \<Rightarrow> real" where
  "category_spent f c = f64_sum (map amount (filter (\<lambda>r. categoryName r = c) f))"

text \<open>
  The result is \<open>None\<close> when nothing is rendered, else the spend, the progress in
  percent as written in the text, and the value given to the progress bar. What the
  widget and chart calls do with the values they are given is outside the model.
\<close>

definition budget_tracker :: "row list \<Rightarrow> string \<Rightarrow> real \<Rightarrow> py_error + (real \<times> real \<times> real) option" where
  "budget_tracker f c b =
     (if b > 0 then
        (case py_div (category_spent f c) b of
           Inl e \<Rightarrow> Inl e
         | Inr q \<Rightarrow>
             (let budget_progress = q * 100
              in Inr (Some (category_spent f c, budget_progress, min budget_progress 100))))
      else Inr None)"

subsection \<open>CSV export (lines 93 to 96)\<close>

text \<open>
  The export is modelled up to the text form of a cell: a header and one line per row,
  the index label first, then every column of the frame.
\<close>

datatype cell = Label nat | Text string | Number real | Time timestamp | Period int

definition csv_header :: "row list \<Rightarrow> string list" where
  "csv_header f =
     [[], ''user'', ''date'', ''amount'', ''categoryName'', ''paidTo'']
     @ (if list_ex (\<lambda>r. month r \<noteq> None) f then [''month''] else [])
     @ (if list_ex (\<lambda>r. day_of_week r \<noteq> None) f then [''day_of_week''] else [])"

definition csv_line :: "row \<Rightarrow> cell list" where
  "csv_line r =
     [Label (idx r), Text (user r), Time (date r), Number (amount r),
      Text (categoryName r), Text (paidTo r)]
     @ (case month r of None \<Rightarrow> [] | Some m \<Rightarrow> [Period m])
     @ (case day_of_week r of None \<Rightarrow> [] | Some d \<Rightarrow> [Text d])"

definition convert_df :: "row list \<Rightarrow> string list \<times> cell list list" where
  "convert_df f = (csv_header f, map csv_line f)"

subsection \<open>The views (lines 109 to 202)\<close>

definition total_expenses :: "row list \<Rightarrow> real" where
  "total_expenses f = f64_sum (map amount f)"

definition average_expense :: "row list \<Rightarrow> real option" where
  "average_expense f = mean (map amount f)"

definition daily_expenses :: "row list \<Rightarrow> (timestamp \<times> real) list" where
  "daily_expenses f = groupby_sum date amount f"

text \<open>Each entry: the date, the amount of that date, the cumulative amount.\<close>

definition cumulative_expenses :: "(timestamp \<times> real) list \<Rightarrow> (timestamp \<times> real \<times> real) list" where
  "cumulative_expenses daily =
     (let s = sort_key fst daily
      in map2 (\<lambda>(d, a) c. (d, a, c)) s (cumsum (map snd s)))"

definition category_totals :: "row list \<Rightarrow> (string \<times> real) list" where
  "category_totals f = sort_values_desc (groupby_sum categoryName amount f)"

text \<open>
  Monthly trends. The assignment in line 154 gives the filtered table a new column;
  the view returns the table as it leaves it.
\<close>

definition sum_or_nan :: "real list \<Rightarrow> real option" where
  "sum_or_nan xs = (if xs = [] then None else Some (f64_sum xs))"

definition unstacked_sum :: "row list \<Rightarrow> (int option \<times> (string \<times> real option) list) list" where
  "unstacked_sum f =
     map (\<lambda>m. (m, map (\<lambda>c. (c, sum_or_nan (map amount
                     (filter (\<lambda>r. month r = m \<and> categoryName r = c) f))))
                  (sort (remdups (map categoryName f)))))
       (sort (remdups (map month f)))"

definition monthly_trends ::
  "row list \<Rightarrow> (int option \<times> (string \<times> real option) list) list \<times> row list" where
  "monthly_trends f =
     (let f' = map (\<lambda>r. r\<lparr>month := Some (to_period_M (date r))\<rparr>) f
      in (unstacked_sum f', f'))"

text \<open>Day of week analysis; line 161 adds a column in the same way.\<close>

definition reindex :: "'k list \<Rightarrow> ('k \<times> 'v option) list \<Rightarrow> ('k \<times> 'v option) list" where
  "reindex ks s = map (\<lambda>k. (k, case map_of s k of None \<Rightarrow> None | Some v \<Rightarrow> v)) ks"

definition day_of_week_analysis ::
  "row list \<Rightarrow> (string option \<times> real option) list \<times> row list" where
  "day_of_week_analysis f =
     (let f' = map (\<lambda>r. r\<lparr>day_of_week := Some (day_name (date r))\<rparr>) f
      in (reindex (map Some weekdays) (groupby_mean day_of_week amount f'), f'))"

text \<open>
  Expense comparison. \<^verbatim>\<open>st.date_input\<close> returns a tuple of the dates picked so far;
  reading its second element fails while only one date is picked.
\<close>

definition df_period :: "row list \<Rightarrow> pydate list \<Rightarrow> py_error + row list" where
  "df_period df p =
     (if length p < 2 then Inl IndexError
      else Inr (filter (\<lambda>r. date_of (date r) \<ge> p ! 0 \<and> date_of (date r) \<le> p ! 1) df))"

text \<open>
  A frame built from two series has the sorted union of their indexes as its index,
  and no value where a series has no entry.
\<close>

definition outer_join :: "('k::linorder \<times> real) list \<Rightarrow> ('k \<times> real) list \<Rightarrow> ('k \<times> real option \<times> real option) list" where
  "outer_join s1 s2 =
     map (\<lambda>k. (k, map_of s1 k, map_of s2 k)) (sort (remdups (map fst s1 @ map fst s2)))"

definition comparison ::
  "row list \<Rightarrow> pydate list \<Rightarrow> pydate list \<Rightarrow> py_error + (string \<times> real option \<times> real option) list" where
  "comparison df p1 p2 =
     (case df_period df p1 of
        Inl e \<Rightarrow> Inl e
      | Inr df_period1 \<Rightarrow>
          (case df_period df p2 of
             Inl e \<Rightarrow> Inl e
           | Inr df_period2 \<Rightarrow>
               Inr (outer_join (groupby_sum categoryName amount df_period1)
                               (groupby_sum categoryName amount df_period2))))"

definition top_expenses :: "nat \<Rightarrow> row list \<Rightarrow> row list" where
  "top_expenses n f = nlargest n f"

definition top_payees :: "row list \<Rightarrow> (string \<times> real) list" where
  "top_payees f = take 10 (sort_values_desc (groupby_sum paidTo amount f))"

text \<open>
  Statistical summary: one line per category. Of the columns of \<^verbatim>\<open>describe()\<close> the
  model has the count, the mean, the minimum and the maximum; the standard deviation
  and the quartiles are left out.
\<close>

definition describe :: "row list \<Rightarrow> (string \<times> nat \<times> real option \<times> real \<times> real) list" where
  "describe f =
     map (\<lambda>k. let g = map amount (filter (\<lambda>r. categoryName r = k) f)
              in (k, length g, mean g, Min (set g), Max (set g)))
       (sort (remdups (map categoryName f)))"

subsection \<open>The page and the script\<close>

record page =
  pg_budget :: "(real \<times> real \<times> real) option"
  pg_csv :: "string list \<times> cell list list"
  pg_total :: real
  pg_average :: "real option"
  pg_transactions :: nat
  pg_daily :: "(timestamp \<times> real) list"
  pg_cumulative :: "(timestamp \<times> real \<times> real) list"
  pg_category_totals :: "(string \<times> real) list"
  pg_treemap :: "row list"
  pg_monthly :: "(int option \<times> (string \<times> real option) list) list"
  pg_dow :: "(string option \<times> real option) list"
  pg_comparison :: "(string \<times> real option \<times> real option) list"
  pg_top_expenses :: "row list"
  pg_top_payees :: "(string \<times> real) list"
  pg_summary :: "(string \<times> nat \<times> real option \<times> real \<times> real) list"

text \<open>Lines 64 to 202, for the table \<open>df\<close> that \<open>get_data\<close> returned.\<close>

definition render :: "row list \<Rightarrow> selection \<Rightarrow> halt + page" where
  "render df sel =
     (case slider_bounds df of
        Inl e \<Rightarrow> Inl (Uncaught e)
      | Inr bounds \<Rightarrow>
     (let f0 = df_filtered df (date_range sel) (categories sel) (payees sel) in
      case budget_tracker f0 (budget_category sel) (budget_amount sel) of
        Inl e \<Rightarrow> Inl (Uncaught e)
      | Inr budget \<Rightarrow>
     (let csv = convert_df f0;
          daily = daily_expenses f0;
          (monthly, f1) = monthly_trends f0;
          (dow, f2) = day_of_week_analysis f1
      in case comparison df (period1 sel) (period2 sel) of
        Inl e \<Rightarrow> Inl (Uncaught e)
      | Inr cmp \<Rightarrow>
          Inr \<lparr>pg_budget = budget, pg_csv = csv,
               pg_total = total_expenses f0, pg_average = average_expense f0,
               pg_transactions = length f0,
               pg_daily = daily, pg_cumulative = cumulative_expenses daily,
               pg_category_totals = category_totals f0, pg_treemap = f0,
               pg_monthly = monthly, pg_dow = dow, pg_comparison = cmp,
               pg_top_expenses = top_expenses (top_n sel) f2,
               pg_top_payees = top_payees f2,
               pg_summary = describe f2\<rparr>)))"

text \<open>
  The whole script. The first component lists the queries sent to the store, the
  second is how the run ends.
\<close>

definition app ::
  "(string \<Rightarrow> py_error + string) \<Rightarrow> (string \<rightharpoonup> string) \<Rightarrow> document list \<Rightarrow> selection
     \<Rightarrow> string list \<times> (halt + page)" where
  "app mk query_params collection sel =
     (case resolve_user_id mk query_params of
        Inl h \<Rightarrow> ([], Inl h)
      | Inr user_id \<Rightarrow>
          ([user_id],
           case get_data collection user_id of
             Inl h \<Rightarrow> Inl h
           | Inr df \<Rightarrow> render df sel))"

subsection \<open>Notions used to state the properties\<close>

text \<open>The calendar day of a row lies in the interval from \<open>a\<close> to \<open>b\<close>, both included.\<close>

definition in_period :: "pydate \<Rightarrow> pydate \<Rightarrow> row \<Rightarrow> bool" where
  "in_period a b r = (a \<le> date_of (date r) \<and> date_of (date r) \<le> b)"

text \<open>
  The total of a category over the rows of a table within an interval; no value when
  the category has no row there.
\<close>

definition period_total :: "row list \<Rightarrow> pydate \<Rightarrow> pydate \<Rightarrow> string \<Rightarrow> real option" where
  "period_total df a b k =
     (if list_ex (\<lambda>r. in_period a b r \<and> categoryName r = k) df
      then Some (f64_sum (map amount (filter (\<lambda>r. in_period a b r \<and> categoryName r = k) df)))
      else None)"

text \<open>The columns a fetched table has, and a row with the two derived columns set.\<close>

definition original_columns :: "row \<Rightarrow> nat \<times> string \<times> timestamp \<times> real \<times> string \<times> string" where
  "original_columns r = (idx r, user r, date r, amount r, categoryName r, paidTo r)"

definition with_temporal_columns :: "row \<Rightarrow> row" where
  "with_temporal_columns r =
     r\<lparr>month := Some (to_period_M (date r)), day_of_week := Some (day_name (date r))\<rparr>"

subsection \<open>Example data\<close>

text \<open>
  A collection with seven expenses of one user in the first days of January 2024 (day
  19723 is 2024-01-01), one of them of category Home, and one expense of another user.
\<close>

definition jan :: "int \<Rightarrow> int \<Rightarrow> timestamp" where
  "jan d h = Timestamp (19722 + d) + h * 3600000000000"

definition ex_user :: string where
  "ex_user = ''65a1b2c3d4e5f60718293a4b''"

definition ex_doc :: "string \<Rightarrow> timestamp \<Rightarrow> real \<Rightarrow> string \<Rightarrow> string \<Rightarrow> document" where
  "ex_doc u t a c p =
     \<lparr>doc_user = u, doc_date = t, doc_amount = a, doc_categoryName = c, doc_paidTo = p\<rparr>"

definition ex_collection :: "document list" where
  "ex_collection =
     [ex_doc ex_user (jan 1 10) 10 ''Food'' ''Cafe'',
      ex_doc ''65a1b2c3d4e5f60718293a4c'' (jan 1 11) 99 ''Food'' ''Cafe'',
      ex_doc ex_user (jan 2 9) 20 ''Food'' ''Market'',
      ex_doc ex_user (jan 2 18) 5 ''Transport'' ''Metro'',
      ex_doc ex_user (jan 2 20) 900 ''Home'' ''Landlord'',
      ex_doc ex_user (jan 3 0) 40 ''Rent'' ''Landlord'',
      ex_doc ex_user (jan 4 12) 5 ''Transport'' ''Metro'',
      ex_doc ex_user (jan 5 15) 7 ''Food'' ''Cafe'']"

definition ex_row :: "nat \<Rightarrow> timestamp \<Rightarrow> real \<Rightarrow> string \<Rightarrow> string \<Rightarrow> row" where
  "ex_row i t a c p =
     \<lparr>idx = i, user = ex_user, date = t, amount = a, categoryName = c, paidTo = p,
      month = None, day_of_week = None\<rparr>"

text \<open>The table that \<open>get_data\<close> returns for this user.\<close>

definition ex_df :: "row list" where
  "ex_df =
     [ex_row 0 (jan 1 10) 10 ''Food'' ''Cafe'',
      ex_row 1 (jan 2 9) 20 ''Food'' ''Market'',
      ex_row 2 (jan 2 18) 5 ''Transport'' ''Metro'',
      ex_row 4 (jan 3 0) 40 ''Rent'' ''Landlord'',
      ex_row 5 (jan 4 12) 5 ''Transport'' ''Metro'',
      ex_row 6 (jan 5 15) 7 ''Food'' ''Cafe'']"


text \<open>
  A selection: the date slider untouched, at the bounds the script gives it for this
  table, and no category or payee chosen.
\<close>

definition ex_sel :: selection where
  "ex_sel =
     \<lparr>categories = [], payees = [], date_range = (19723, 19727),
      budget_category = ''Food'', budget_amount = 0,
      period1 = [19723, 19724], period2 = [19727, 19727], top_n = 5\<rparr>"

section \<open>Properties\<close>

subsection \<open>Sums that do not round\<close>

lemma round_half_even_of_int [simp]: "round_half_even (of_int k) = k"
  by (simp add: round_half_even_def)


lemma pow2_nonzero [simp]: "pow2 e \<noteq> 0"
  by (simp add: pow2_def)








subsection \<open>Grouping and sorting\<close>









lemma groupby_sum_keys [simp]:
  "map fst (groupby_sum key val rows) = sort (remdups (map key rows))"
  by (simp add: groupby_sum_def comp_def)

lemma groupby_sum_key_set: "fst ` set (groupby_sum key val rows) = key ` set rows"
proof -
  have "fst ` set (groupby_sum key val rows) = set (map fst (groupby_sum key val rows))"
    by (simp only: set_map)
  also have "\<dots> = key ` set rows"
    unfolding groupby_sum_keys by simp
  finally show ?thesis .
qed

lemma groupby_sum_Nil [simp]: "groupby_sum key val rows = [] \<longleftrightarrow> rows = []"
proof -
  have "length (groupby_sum key val rows) = length (remdups (map key rows))"
    by (simp add: groupby_sum_def)
  then show ?thesis
    by (metis length_0_conv remdups_eq_nil_iff map_is_Nil_conv)
qed

lemma map_of_graph:
  "map_of (map (\<lambda>k. (k, g k)) ks) k = (if k \<in> set ks then Some (g k) else None)"
  by (induction ks) auto

lemma groupby_sum_lookup:
  "map_of (groupby_sum key val rows) k =
     (if k \<in> key ` set rows
      then Some (f64_sum (map val (filter (\<lambda>r. key r = k) rows))) else None)"
  unfolding groupby_sum_def map_of_graph by simp

text \<open>Grouping does not see a change of the rows that keeps the key and the value.\<close>

lemma filter_map_key:
  "(\<And>r. key (g r) = key r) \<Longrightarrow>
   filter (\<lambda>r. key r = k) (map g rows) = map g (filter (\<lambda>r. key r = k) rows)"
  by (induction rows) auto

lemma groupby_sum_map:
  assumes "\<And>r. key (g r) = key r" and "\<And>r. val (g r) = val r"
  shows "groupby_sum key val (map g rows) = groupby_sum key val rows"
proof -
  have "key \<circ> g = key"
    using assms(1) by (simp add: fun_eq_iff)
  then have "map key (map g rows) = map key rows"
    by (simp only: map_map)
  moreover have "f64_sum (map val (filter (\<lambda>r. key r = k) (map g rows)))
      = f64_sum (map val (filter (\<lambda>r. key r = k) rows))" for k
    using assms by (simp add: filter_map_key comp_def)
  ultimately show ?thesis
    unfolding groupby_sum_def by (simp only:)
qed

lemma insort_key_map:
  "(\<And>r. k (g r) = k r) \<Longrightarrow> insort_key k (g x) (map g xs) = map g (insort_key k x xs)"
  by (induction xs) auto

lemma sort_key_map:
  "(\<And>r. k (g r) = k r) \<Longrightarrow> sort_key k (map g xs) = map g (sort_key k xs)"
  by (induction xs) (auto simp: insort_key_map)

lemma filter_all: "\<forall>x\<in>set (filter P xs). P x"
  by simp

lemma absent_key: "k \<notin> g ` S \<longleftrightarrow> (\<forall>x\<in>S. g x \<noteq> k)"
  by auto

lemma length_filter_mono:
  "(\<And>x. x \<in> set xs \<Longrightarrow> P x \<Longrightarrow> Q x) \<Longrightarrow> length (filter P xs) \<le> length (filter Q xs)"
  by (induction xs) auto

subsection \<open>The script as a whole\<close>

lemma budget_tracker_total: "\<exists>v. budget_tracker f c b = Inr v"
  by (cases "b > 0") (simp_all add: budget_tracker_def py_div_def Let_def)

lemma monthly_trends_table:
  "snd (monthly_trends f) = map (\<lambda>r. r\<lparr>month := Some (to_period_M (date r))\<rparr>) f"
  by (simp add: monthly_trends_def Let_def)

lemma day_of_week_analysis_table:
  "snd (day_of_week_analysis f) = map (\<lambda>r. r\<lparr>day_of_week := Some (day_name (date r))\<rparr>) f"
  by (simp add: day_of_week_analysis_def Let_def)

lemma temporal_table:
  "snd (day_of_week_analysis (snd (monthly_trends f))) = map with_temporal_columns f"
  by (simp add: monthly_trends_table day_of_week_analysis_table with_temporal_columns_def
      comp_def)

text \<open>The views of a rendered page, each in terms of the table it is computed from.\<close>

lemma render_page:
  assumes "render df sel = Inr pg"
  defines "f0 \<equiv> df_filtered df (date_range sel) (categories sel) (payees sel)"
  defines "f2 \<equiv> snd (day_of_week_analysis (snd (monthly_trends f0)))"
  shows "pg_csv pg = convert_df f0"
    and "pg_total pg = total_expenses f0"
    and "pg_transactions pg = length f0"
    and "pg_daily pg = daily_expenses f0"
    and "pg_cumulative pg = cumulative_expenses (daily_expenses f0)"
    and "pg_category_totals pg = category_totals f0"
    and "pg_treemap pg = f0"
    and "pg_monthly pg = fst (monthly_trends f0)"
    and "pg_dow pg = fst (day_of_week_analysis (snd (monthly_trends f0)))"
    and "comparison df (period1 sel) (period2 sel) = Inr (pg_comparison pg)"
    and "pg_top_expenses pg = top_expenses (top_n sel) f2"
    and "pg_top_payees pg = top_payees f2"
    and "pg_summary pg = describe f2"
    and "budget_tracker f0 (budget_category sel) (budget_amount sel) = Inr (pg_budget pg)"
  using assms(1) unfolding f0_def f2_def render_def Let_def
  by (auto split: sum.splits prod.splits)

text \<open>
  The page is rendered in full whenever the table has a row and both comparison
  periods have their two dates.
\<close>

lemma render_total:
  assumes "df \<noteq> []" and "2 \<le> length (period1 sel)" and "2 \<le> length (period2 sel)"
  shows "\<exists>pg. render df sel = Inr pg"
proof -
  obtain bounds where "slider_bounds df = Inr bounds"
    using assms(1) by (simp add: slider_bounds_def Let_def)
  moreover obtain budget where
    "budget_tracker (df_filtered df (date_range sel) (categories sel) (payees sel))
       (budget_category sel) (budget_amount sel) = Inr budget"
    using budget_tracker_total by blast
  moreover obtain cmp where "comparison df (period1 sel) (period2 sel) = Inr cmp"
    using assms(2,3) by (simp add: comparison_def df_period_def)
  ultimately show ?thesis
    unfolding render_def Let_def
    by (simp split: prod.splits)
qed

lemma ex_get_data: "get_data ex_collection ex_user = Inr ex_df"
  by code_simp

lemma ex_render: "\<exists>pg. render ex_df ex_sel = Inr pg"
  by (rule render_total) (simp_all add: ex_df_def ex_sel_def)

lemma ex_app_renders:
  "\<exists>pg. app oid_of_string [''user_id'' \<mapsto> ex_user] ex_collection ex_sel = ([ex_user], Inr pg)"
proof -
  have "resolve_user_id oid_of_string [''user_id'' \<mapsto> ex_user] = Inr ex_user"
    by (simp add: resolve_user_id_def query_params_get_def oid_of_string_def ex_user_def
        is_hex_digit_def)
  then show ?thesis
    using ex_render by (auto simp: app_def ex_get_data)
qed

subsection \<open>Identity resolution\<close>

text \<open>
  Claim C9. When the query parameter \<open>user_id\<close> is absent, the run shows an error and
  stops before any query is sent to the store; when the parameter is present and is
  not accepted as an identifier, the run shows an error and stops in the same way. In
  both cases no page is rendered. For the absent parameter the default value
  \<^verbatim>\<open>[None]\<close> is a non-empty list, so the run passes the first test and stops at the
  second one, with the message for an identifier of invalid form; the first message
  is shown for a parameter that is present and empty.
\<close>

theorem identity_resolution_halts:
  "(query_params ''user_id'' = None \<longrightarrow>
      app mk query_params collection sel = ([], Inl (Error_shown ''Invalid user ID format.'')))
   \<and> (query_params ''user_id'' = Some [] \<longrightarrow>
      app mk query_params collection sel = ([], Inl (Error_shown
        ''No user ID provided. Please access this dashboard through the main application.'')))
   \<and> (\<forall>s e. query_params ''user_id'' = Some s \<and> s \<noteq> [] \<and> mk s = Inl e \<longrightarrow>
      app mk query_params collection sel = ([], Inl (Error_shown ''Invalid user ID format.'')))"
  by (simp add: app_def resolve_user_id_def query_params_get_def Let_def)

text \<open>
  The three cases on the example collection, with the format of the spec as the check:
  no parameter, a parameter of 23 hex digits, an empty parameter.
\<close>

theorem identity_resolution_halts_witness:
  "app oid_of_string Map.empty ex_collection ex_sel
     = ([], Inl (Error_shown ''Invalid user ID format.''))
   \<and> oid_of_string ''65a1b2c3d4e5f60718293a4'' = Inl InvalidId
   \<and> app oid_of_string [''user_id'' \<mapsto> ''65a1b2c3d4e5f60718293a4''] ex_collection ex_sel
     = ([], Inl (Error_shown ''Invalid user ID format.''))
   \<and> app oid_of_string [''user_id'' \<mapsto> []] ex_collection ex_sel
     = ([], Inl (Error_shown
        ''No user ID provided. Please access this dashboard through the main application.''))"
proof -
  have a: "oid_of_string ''65a1b2c3d4e5f60718293a4'' = Inl InvalidId"
    by (simp add: oid_of_string_def)
  show ?thesis
    using identity_resolution_halts [of Map.empty oid_of_string ex_collection ex_sel]
      identity_resolution_halts [of "[''user_id'' \<mapsto> ''65a1b2c3d4e5f60718293a4'']"
        oid_of_string ex_collection ex_sel]
      identity_resolution_halts [of "[''user_id'' \<mapsto> []]" oid_of_string ex_collection ex_sel]
      a
    by simp
qed

subsection \<open>Data fetch and the excluded category\<close>

lemma df_filtered_subset: "set (df_filtered df dr cats pays) \<subseteq> set df"
  by (auto simp: df_filtered_def)

lemma category_totals_keys: "fst ` set (category_totals f) = categoryName ` set f"
  by (simp add: category_totals_def sort_values_desc_def groupby_sum_key_set)

lemma temporal_table_categories:
  "categoryName ` set (snd (day_of_week_analysis (snd (monthly_trends f)))) = categoryName ` set f"
  by (simp add: temporal_table image_image with_temporal_columns_def)

lemma monthly_trends_columns:
  assumes "mc \<in> set (fst (monthly_trends f))"
  shows "fst ` set (snd mc) = categoryName ` set f"
proof -
  let ?f' = "map (\<lambda>r. r\<lparr>month := Some (to_period_M (date r))\<rparr>) f"
  from assms have "map fst (snd mc) = sort (remdups (map categoryName ?f'))"
    by (auto simp: monthly_trends_def Let_def unstacked_sum_def comp_def)
  then have "set (map fst (snd mc)) = set (sort (remdups (map categoryName ?f')))"
    by (rule arg_cong)
  also have "\<dots> = categoryName ` set ?f'"
    by (simp only: set_sort set_remdups set_map)
  also have "\<dots> = categoryName ` set f"
    by (simp add: image_image)
  finally show ?thesis by (simp only: set_map)
qed

lemma top_expenses_subset: "set (top_expenses n f) \<subseteq> set f"
proof -
  have "set (take n (sort_key (\<lambda>r. - amount r) f)) \<subseteq> set (sort_key (\<lambda>r. - amount r) f)"
    by (rule set_take_subset)
  then show ?thesis by (simp add: top_expenses_def nlargest_def)
qed

lemma describe_keys: "fst ` set (describe f) = categoryName ` set f"
proof -
  have "map fst (describe f) = sort (remdups (map categoryName f))"
    by (simp add: describe_def comp_def Let_def)
  then have "set (map fst (describe f)) = categoryName ` set f"
    by simp
  then show ?thesis by (simp only: set_map)
qed

lemma outer_join_keys: "fst ` set (outer_join s1 s2) = fst ` set s1 \<union> fst ` set s2"
proof -
  have "map fst (outer_join s1 s2) = sort (remdups (map fst s1 @ map fst s2))"
    by (simp add: outer_join_def comp_def)
  then have "set (map fst (outer_join s1 s2)) = fst ` set s1 \<union> fst ` set s2"
    by simp
  then show ?thesis by (simp only: set_map)
qed

lemma df_period_subset: "df_period df p = Inr d \<Longrightarrow> set d \<subseteq> set df"
  by (auto simp: df_period_def split: if_splits)

lemma comparison_keys:
  assumes "comparison df p1 p2 = Inr cmp"
  shows "fst ` set cmp \<subseteq> categoryName ` set df"
proof -
  from assms obtain d1 d2 where d: "df_period df p1 = Inr d1" "df_period df p2 = Inr d2"
    and cmp: "cmp = outer_join (groupby_sum categoryName amount d1)
                      (groupby_sum categoryName amount d2)"
    by (auto simp: comparison_def split: sum.splits)
  have "fst ` set cmp = categoryName ` set d1 \<union> categoryName ` set d2"
    unfolding cmp outer_join_keys groupby_sum_key_set ..
  then show ?thesis
    using df_period_subset [OF d(1)] df_period_subset [OF d(2)] by blast
qed

lemma csv_line_category: "csv_line r ! 4 = Text (categoryName r)"
  by (simp add: csv_line_def)

text \<open>
  Claim C2. The table that the fetch returns is the fetched frame without its rows of
  category Home, so it has no such row; and no view derived from it shows the category:
  not the options of the category controls, the filtered table (which is also the
  input of the treemap), the lines of the CSV export (cell 4 of a line is the category),
  the category totals, the columns of the monthly table, the period comparison, the
  top expenses or the statistical summary.
\<close>

theorem home_never_present:
  assumes "get_data collection user_id = Inr df"
  shows "df = filter (\<lambda>r. categoryName r \<noteq> ''Home'') (DataFrame (find_user collection user_id))
    \<and> (\<forall>r\<in>set df. categoryName r \<noteq> ''Home'')
    \<and> ''Home'' \<notin> set (unique (map categoryName df))
    \<and> (\<forall>r\<in>set (df_filtered df dr cats pays). categoryName r \<noteq> ''Home'')
    \<and> (\<forall>pg. render df sel = Inr pg \<longrightarrow>
          (\<forall>line\<in>set (snd (pg_csv pg)). line ! 4 \<noteq> Text ''Home'')
          \<and> (\<forall>r\<in>set (pg_treemap pg). categoryName r \<noteq> ''Home'')
          \<and> ''Home'' \<notin> fst ` set (pg_category_totals pg)
          \<and> (\<forall>mc\<in>set (pg_monthly pg). ''Home'' \<notin> fst ` set (snd mc))
          \<and> ''Home'' \<notin> fst ` set (pg_comparison pg)
          \<and> (\<forall>r\<in>set (pg_top_expenses pg). categoryName r \<noteq> ''Home'')
          \<and> ''Home'' \<notin> fst ` set (pg_summary pg))"
proof -
  from assms have df: "df = filter (\<lambda>r. categoryName r \<noteq> ''Home'')
      (DataFrame (find_user collection user_id))"
    by (auto simp: get_data_def Let_def split: if_splits)
  have "\<forall>r\<in>set (filter (\<lambda>r. categoryName r \<noteq> ''Home'')
      (DataFrame (find_user collection user_id))). categoryName r \<noteq> ''Home''"
    by (rule filter_all)
  then have "\<forall>r\<in>set df. categoryName r \<noteq> ''Home''"
    by (simp only: df [symmetric])
  then have home: "''Home'' \<notin> categoryName ` set df"
    unfolding absent_key .
  then have opts: "''Home'' \<notin> set (unique (map categoryName df))"
    by (simp add: unique_def)
  have sub: "''Home'' \<notin> categoryName ` set (df_filtered df dr' cats' pays')" for dr' cats' pays'
    using home df_filtered_subset [of df dr' cats' pays'] unfolding absent_key
    by (meson subsetD)
  have page: "(\<forall>line\<in>set (snd (pg_csv pg)). line ! 4 \<noteq> Text ''Home'')
          \<and> (\<forall>r\<in>set (pg_treemap pg). categoryName r \<noteq> ''Home'')
          \<and> ''Home'' \<notin> fst ` set (pg_category_totals pg)
          \<and> (\<forall>mc\<in>set (pg_monthly pg). ''Home'' \<notin> fst ` set (snd mc))
          \<and> ''Home'' \<notin> fst ` set (pg_comparison pg)
          \<and> (\<forall>r\<in>set (pg_top_expenses pg). categoryName r \<noteq> ''Home'')
          \<and> ''Home'' \<notin> fst ` set (pg_summary pg)" if r: "render df sel = Inr pg" for pg
  proof -
    let ?f0 = "df_filtered df (date_range sel) (categories sel) (payees sel)"
    let ?f2 = "snd (day_of_week_analysis (snd (monthly_trends ?f0)))"
    note pg = render_page [OF r]
    have f0: "''Home'' \<notin> categoryName ` set ?f0" by (rule sub)
    then have f2: "''Home'' \<notin> categoryName ` set ?f2"
      by (simp only: temporal_table_categories not_False_eq_True)
    have "\<forall>line\<in>set (snd (pg_csv pg)). line ! 4 \<noteq> Text ''Home''"
      using f0 unfolding absent_key by (simp add: pg(1) convert_df_def csv_line_category)
    moreover have "\<forall>r\<in>set (pg_treemap pg). categoryName r \<noteq> ''Home''"
      using f0 unfolding pg(7) absent_key .
    moreover have "''Home'' \<notin> fst ` set (pg_category_totals pg)"
      using f0 unfolding pg(6) category_totals_keys .
    moreover have "\<forall>mc\<in>set (pg_monthly pg). ''Home'' \<notin> fst ` set (snd mc)"
      using f0 unfolding pg(8) by (simp add: monthly_trends_columns)
    moreover have "''Home'' \<notin> fst ` set (pg_comparison pg)"
      using comparison_keys [OF pg(10)] home by (meson subsetD)
    moreover have "\<forall>r\<in>set (pg_top_expenses pg). categoryName r \<noteq> ''Home''"
      using f2 top_expenses_subset [of "top_n sel" ?f2] unfolding pg(11) absent_key
      by (meson subsetD)
    moreover have "''Home'' \<notin> fst ` set (pg_summary pg)"
      using f2 unfolding pg(13) describe_keys .
    ultimately show ?thesis by blast
  qed
  show ?thesis
    using df home opts sub [of dr cats pays] page unfolding absent_key by blast
qed

text \<open>
  On the example collection: the user has an expense of category Home, the fetched
  table is the example table, and the rendered page has no Home entry.
\<close>

theorem home_never_present_witness:
  "get_data ex_collection ex_user = Inr ex_df
   \<and> list_ex (\<lambda>d. doc_categoryName d = ''Home'') (find_user ex_collection ex_user)
   \<and> list_all (\<lambda>r. categoryName r \<noteq> ''Home'') ex_df
   \<and> (\<exists>pg. render ex_df ex_sel = Inr pg
         \<and> ''Home'' \<notin> fst ` set (pg_category_totals pg)
         \<and> ''Home'' \<notin> fst ` set (pg_comparison pg))"
proof -
  obtain pg where r: "render ex_df ex_sel = Inr pg"
    using ex_render by blast
  have h: "list_ex (\<lambda>d. doc_categoryName d = ''Home'') (find_user ex_collection ex_user)"
    by code_simp
  note t = home_never_present [OF ex_get_data, where sel = ex_sel]
  from t have "list_all (\<lambda>r. categoryName r \<noteq> ''Home'') ex_df"
    unfolding list_all_iff by blast
  moreover from t r have "''Home'' \<notin> fst ` set (pg_category_totals pg)"
    and "''Home'' \<notin> fst ` set (pg_comparison pg)"
    by blast+
  ultimately show ?thesis
    using r h ex_get_data by blast
qed

subsection \<open>Filtering\<close>

text \<open>The rows that the filter keeps, as the code selects them.\<close>

lemma df_filtered_rows:
  "set (df_filtered df (lo, hi) cats pays) =
     {r \<in> set df. Timestamp lo \<le> date r \<and> date r \<le> Timestamp hi
        \<and> (cats \<noteq> [] \<longrightarrow> categoryName r \<in> set cats)
        \<and> (pays \<noteq> [] \<longrightarrow> paidTo r \<in> set pays)}"
  by (auto simp: df_filtered_def isin_or_all_def)

text \<open>
  In days: the lower bound keeps every row of its day, the upper bound keeps of its
  day only the rows dated midnight.
\<close>

lemma lower_bound_days: "Timestamp lo \<le> t \<longleftrightarrow> lo \<le> date_of t"
  unfolding Timestamp_def date_of_def ns_per_day_def by linarith

lemma upper_bound_days: "t \<le> Timestamp hi \<longleftrightarrow> date_of t < hi \<or> t = Timestamp hi"
  unfolding Timestamp_def date_of_def ns_per_day_def by linarith

lemma df_filtered_rows_days:
  "set (df_filtered df (lo, hi) cats pays) =
     {r \<in> set df. lo \<le> date_of (date r) \<and> (date_of (date r) < hi \<or> date r = Timestamp hi)
        \<and> (cats \<noteq> [] \<longrightarrow> categoryName r \<in> set cats)
        \<and> (pays \<noteq> [] \<longrightarrow> paidTo r \<in> set pays)}"
  unfolding df_filtered_rows lower_bound_days upper_bound_days ..

text \<open>
  Claim C1. The filter is to return exactly the rows whose date lies in the inclusive
  range of days chosen on the slider and that satisfy the category and payee
  selections. The code compares the timestamp of a row with midnight at the start of
  each bound, so a row of the last day of the range that has a time of day is left
  out. On the example table, with the slider at the bounds the script computes from
  the table itself: the row of 5 January, 15:00, is a row of the table, its day lies
  in the range, and the filter does not return it, while the period comparison of
  lines 174 and 175, which compares calendar days, keeps every row for the same range.
\<close>

theorem last_day_rows_dropped:
  "slider_bounds ex_df = Inr (19723, 19727)
   \<and> ex_df ! 5 \<in> set ex_df
   \<and> 19723 \<le> date_of (date (ex_df ! 5)) \<and> date_of (date (ex_df ! 5)) \<le> 19727
   \<and> ex_df ! 5 \<notin> set (df_filtered ex_df (19723, 19727) [] [])
   \<and> df_period ex_df [19723, 19727] = Inr ex_df"
  by code_simp

lemma isin_or_all_narrow:
  "s2 = s1 \<or> (s2 \<noteq> [] \<and> (s1 = [] \<or> set s2 \<subseteq> set s1)) \<Longrightarrow>
   isin_or_all s2 v \<Longrightarrow> isin_or_all s1 v"
  by (auto simp: isin_or_all_def)

text \<open>
  Claim C6. Two selections with the same date range, where the second leaves each of
  the category and payee selections as it is or adds a constraint to it: the second
  selection is not empty, and the first was empty (no constraint) or contains every
  value of the second. Then the second filtered table has at most as many rows as the
  first.
\<close>

theorem filter_count_monotone:
  assumes "cats2 = cats1 \<or> (cats2 \<noteq> [] \<and> (cats1 = [] \<or> set cats2 \<subseteq> set cats1))"
    and "pays2 = pays1 \<or> (pays2 \<noteq> [] \<and> (pays1 = [] \<or> set pays2 \<subseteq> set pays1))"
  shows "length (df_filtered df dr cats2 pays2) \<le> length (df_filtered df dr cats1 pays1)"
  unfolding df_filtered_def
  using isin_or_all_narrow [OF assms(1)] isin_or_all_narrow [OF assms(2)]
  by (intro length_filter_mono) blast

text \<open>
  The categories go from none chosen to Food, the payees from Cafe and Market to Cafe:
  three rows before, two rows after.
\<close>

theorem filter_count_monotone_witness:
  "length (df_filtered ex_df (19723, 19728) [''Food''] [''Cafe''])
       \<le> length (df_filtered ex_df (19723, 19728) [] [''Cafe'', ''Market''])
   \<and> length (df_filtered ex_df (19723, 19728) [''Food''] [''Cafe'']) = 2
   \<and> length (df_filtered ex_df (19723, 19728) [] [''Cafe'', ''Market'']) = 3"
proof -
  have c: "length (df_filtered ex_df (19723, 19728) [''Food''] [''Cafe'']) = 2"
    by code_simp
  have d: "length (df_filtered ex_df (19723, 19728) [] [''Cafe'', ''Market'']) = 3"
    by code_simp
  show ?thesis
    using filter_count_monotone [of "[''Food'']" "[]" "[''Cafe'']" "[''Cafe'', ''Market'']"
        ex_df "(19723, 19728)"] c d
    by simp
qed

text \<open>
  Emptying a selection removes its constraint: the empty list is a part of every
  selection, and the table grows.
\<close>

lemma clearing_a_selection_widens:
  "set [] \<subseteq> set [''Food'']
   \<and> length (df_filtered ex_df (19723, 19728) [''Food''] []) = 3
   \<and> length (df_filtered ex_df (19723, 19728) [] []) = 6"
  by code_simp

subsection \<open>Budget tracker\<close>

text \<open>
  Claim C10. The budget tracker never ends in a division by zero, and neither does the
  page: with a positive budget the quotient is taken and the three values are shown,
  with the budget zero nothing is shown.
\<close>

theorem budget_division_guarded:
  "budget_tracker f c b \<noteq> Inl ZeroDivisionError
   \<and> (b > 0 \<longrightarrow> budget_tracker f c b =
         Inr (Some (category_spent f c, category_spent f c / b * 100,
                    min (category_spent f c / b * 100) 100)))
   \<and> (b = 0 \<longrightarrow> budget_tracker f c b = Inr None)
   \<and> render df sel \<noteq> Inl (Uncaught ZeroDivisionError)"
proof -
  have bt: "budget_tracker f' c' b' \<noteq> Inl e" for f' c' b' e
    by (simp add: budget_tracker_def py_div_def Let_def)
  have cmp: "comparison df p1 p2 \<noteq> Inl ZeroDivisionError" for p1 p2
    by (simp add: comparison_def df_period_def split: sum.splits)
  have "render df sel \<noteq> Inl (Uncaught ZeroDivisionError)"
    using bt cmp
    by (auto simp: render_def Let_def slider_bounds_def split: sum.splits prod.splits if_splits)
  then show ?thesis
    using bt by (simp add: budget_tracker_def py_div_def Let_def)
qed

theorem budget_division_guarded_witness:
  "budget_tracker ex_df ''Food'' 50 = Inr (Some (37, 74, 74))
   \<and> budget_tracker ex_df ''Food'' 0 = Inr None"
proof -
  have "category_spent ex_df ''Food'' = 37"
    by code_simp
  then show ?thesis
    using budget_division_guarded [of ex_df "''Food''" 50]
      budget_division_guarded [of ex_df "''Food''" 0]
    by simp
qed

subsection \<open>Category totals and the total\<close>






subsection \<open>Time series\<close>

lemma cumsum_from_Nil [simp]: "cumsum_from a xs = [] \<longleftrightarrow> xs = []"
  by (cases xs) auto

lemma cumsum_from_length [simp]: "length (cumsum_from a xs) = length xs"
  by (induction xs arbitrary: a) auto









subsection \<open>Top expenses\<close>

lemma sorted_desc_sort_key:
  "sorted_wrt (\<lambda>a b. amount a \<ge> amount b) (sort_key (\<lambda>r. - amount r) rows)"
proof -
  have "sorted (map (\<lambda>r. - amount r) (sort_key (\<lambda>r. - amount r) rows))"
    by (rule sorted_sort_key)
  then show ?thesis
    by (simp add: sorted_map)
qed

lemma top_expenses_length: "length (top_expenses n f) = min n (length f)"
  by (simp add: top_expenses_def nlargest_def min.commute)

lemma top_expenses_sorted:
  "sorted_wrt (\<lambda>a b. amount a \<ge> amount b) (top_expenses n f)"
  unfolding top_expenses_def nlargest_def
  using sorted_desc_sort_key [of f] by (rule sorted_wrt_take)

lemma top_expenses_rest:
  "mset f - mset (top_expenses n f) = mset (drop n (sort_key (\<lambda>r. - amount r) f))"
proof -
  have "mset f = mset (take n (sort_key (\<lambda>r. - amount r) f))
      + mset (drop n (sort_key (\<lambda>r. - amount r) f))"
    by (metis append_take_drop_id mset_sort mset_append)
  then show ?thesis
    by (simp add: top_expenses_def nlargest_def)
qed

lemma top_expenses_largest:
  assumes "r \<in># mset f - mset (top_expenses n f)" and "s \<in> set (top_expenses n f)"
  shows "amount r \<le> amount s"
proof -
  let ?S = "sort_key (\<lambda>r. - amount r) f"
  have "sorted_wrt (\<lambda>a b. amount a \<ge> amount b) (take n ?S @ drop n ?S)"
    using sorted_desc_sort_key [of f] by simp
  then have "\<forall>x\<in>set (take n ?S). \<forall>y\<in>set (drop n ?S). amount y \<le> amount x"
    unfolding sorted_wrt_append by blast
  moreover have "r \<in> set (drop n ?S)"
    using assms(1) by (simp add: top_expenses_rest)
  moreover have "s \<in> set (take n ?S)"
    using assms(2) by (simp add: top_expenses_def nlargest_def)
  ultimately show ?thesis by blast
qed

lemma top_expenses_map:
  "(\<And>r. amount (g r) = amount r) \<Longrightarrow> top_expenses n (map g f) = map g (top_expenses n f)"
  by (simp add: top_expenses_def nlargest_def sort_key_map take_map)

text \<open>
  Claim C4. For every table and every \<open>N\<close>, so for the values 5 to 20 of the slider,
  the Top-N view has \<open>min N (number of rows)\<close> rows; they are rows of the table, taken
  with their multiplicity; every row left out has an amount no larger than that of
  every row taken; and the rows are in descending order of amount. On a rendered page
  the view has \<open>min N\<close> of the number of transactions of the filtered table.
\<close>

theorem top_expenses_correct:
  "length (top_expenses n f) = min n (length f)
   \<and> mset (top_expenses n f) \<subseteq># mset f
   \<and> (\<forall>r s. r \<in># mset f - mset (top_expenses n f) \<longrightarrow> s \<in> set (top_expenses n f)
         \<longrightarrow> amount r \<le> amount s)
   \<and> sorted_wrt (\<lambda>a b. amount a \<ge> amount b) (top_expenses n f)
   \<and> (\<forall>pg. render df sel = Inr pg \<longrightarrow>
         length (pg_top_expenses pg) = min (top_n sel) (pg_transactions pg))"
proof -
  have "mset (top_expenses n f) \<subseteq># mset (sort_key (\<lambda>r. - amount r) f)"
    unfolding top_expenses_def nlargest_def
    by (metis append_take_drop_id mset_append mset_subset_eq_add_left)
  then have sub: "mset (top_expenses n f) \<subseteq># mset f" by simp
  have "length (pg_top_expenses pg) = min (top_n sel) (pg_transactions pg)"
    if "render df sel = Inr pg" for pg
    using render_page(3,11) [OF that] by (simp add: temporal_table top_expenses_length)
  with sub show ?thesis
    using top_expenses_length top_expenses_sorted top_expenses_largest by blast
qed

text \<open>
  The five largest of the six example rows: the two rows of amount 5 tie, the earlier
  one is taken and the later one is left out.
\<close>

theorem top_expenses_correct_witness:
  "ex_df ! 4 \<in># mset ex_df - mset (top_expenses 5 ex_df)
   \<and> ex_df ! 3 \<in> set (top_expenses 5 ex_df)
   \<and> amount (ex_df ! 4) \<le> amount (ex_df ! 3)
   \<and> length (top_expenses 5 ex_df) = 5
   \<and> map amount (top_expenses 5 ex_df) = [40, 20, 10, 7, 5]
   \<and> (\<exists>pg. render ex_df ex_sel = Inr pg \<and> length (pg_top_expenses pg) = 5)"
proof -
  have a: "ex_df ! 4 \<in># mset ex_df - mset (top_expenses 5 ex_df)"
    by code_simp
  have b: "ex_df ! 3 \<in> set (top_expenses 5 ex_df)"
    by code_simp
  have c: "map amount (top_expenses 5 ex_df) = [40, 20, 10, 7, 5]"
    by code_simp
  obtain pg where r: "render ex_df ex_sel = Inr pg"
    using ex_render by blast
  have "length (df_filtered ex_df (date_range ex_sel) (categories ex_sel) (payees ex_sel)) = 5"
    by code_simp
  then have d: "pg_transactions pg = 5"
    using render_page(3) [OF r] by simp
  have e: "top_n ex_sel = 5"
    by (simp add: ex_sel_def)
  note t = top_expenses_correct [of 5 ex_df ex_df ex_sel]
  from t r d e have "length (pg_top_expenses pg) = 5"
    by simp
  with r have "\<exists>pg. render ex_df ex_sel = Inr pg \<and> length (pg_top_expenses pg) = 5"
    by blast
  with t a b c show ?thesis
    by (simp add: ex_df_def)
qed

subsection \<open>Period comparison\<close>

lemma df_period_pair: "df_period df [a, b] = Inr (filter (in_period a b) df)"
  by (simp add: df_period_def in_period_def [abs_def])

lemma period_lookup:
  "map_of (groupby_sum categoryName amount (filter (in_period a b) df)) k
     = period_total df a b k"
proof -
  have "filter (\<lambda>r. categoryName r = k) (filter (in_period a b) df)
      = filter (\<lambda>r. in_period a b r \<and> categoryName r = k) df"
    by simp
  moreover have "k \<in> categoryName ` set (filter (in_period a b) df)
      \<longleftrightarrow> list_ex (\<lambda>r. in_period a b r \<and> categoryName r = k) df"
    by (auto simp: list_ex_iff)
  ultimately show ?thesis
    unfolding groupby_sum_lookup period_total_def by simp
qed

text \<open>
  Claim C7. For two intervals of days the comparison is a table with one line per
  category that has a row of the unfiltered table in either interval, in ascending
  order and without repetition; each line holds, for each interval on its own, the sum
  of the amounts of the rows of the unfiltered table of that category in the interval,
  and no value when there is none. The comparison shown on a page is this table for
  the two periods of the selection, whatever the date range, categories and payees of
  the filter are.
\<close>

theorem comparison_from_unfiltered:
  "(\<exists>cmp. comparison df [a, b] [c, d] = Inr cmp
      \<and> sorted (map fst cmp) \<and> distinct (map fst cmp)
      \<and> set (map fst cmp) = categoryName ` {r \<in> set df. in_period a b r \<or> in_period c d r}
      \<and> (\<forall>row\<in>set cmp.
            fst (snd row) = period_total df a b (fst row)
            \<and> snd (snd row) = period_total df c d (fst row)))
   \<and> (\<forall>pg. render df sel = Inr pg \<longrightarrow>
         comparison df (period1 sel) (period2 sel) = Inr (pg_comparison pg))
   \<and> (\<forall>pg pg' dr cats pays.
         render df sel = Inr pg
         \<and> render df (sel\<lparr>date_range := dr, categories := cats, payees := pays\<rparr>) = Inr pg'
         \<longrightarrow> pg_comparison pg' = pg_comparison pg)"
proof (intro conjI allI impI)
  let ?s1 = "groupby_sum categoryName amount (filter (in_period a b) df)"
  let ?s2 = "groupby_sum categoryName amount (filter (in_period c d) df)"
  let ?cmp = "outer_join ?s1 ?s2"
  have c: "comparison df [a, b] [c, d] = Inr ?cmp"
    by (simp add: comparison_def df_period_pair)
  have keys: "map fst ?cmp = sort (remdups (map fst ?s1 @ map fst ?s2))"
    by (simp add: outer_join_def comp_def)
  have "set (map fst ?cmp) = categoryName ` set (filter (in_period a b) df)
      \<union> categoryName ` set (filter (in_period c d) df)"
    unfolding keys by simp
  also have "\<dots> = categoryName ` {r \<in> set df. in_period a b r \<or> in_period c d r}"
    by auto
  finally have ks: "set (map fst ?cmp)
      = categoryName ` {r \<in> set df. in_period a b r \<or> in_period c d r}" .
  have vals: "\<forall>row\<in>set ?cmp. fst (snd row) = period_total df a b (fst row)
            \<and> snd (snd row) = period_total df c d (fst row)"
    by (auto simp: outer_join_def period_lookup)
  have "sorted (map fst ?cmp)" "distinct (map fst ?cmp)"
    unfolding keys by simp_all
  with c ks vals
  show "\<exists>cmp. comparison df [a, b] [c, d] = Inr cmp
      \<and> sorted (map fst cmp) \<and> distinct (map fst cmp)
      \<and> set (map fst cmp) = categoryName ` {r \<in> set df. in_period a b r \<or> in_period c d r}
      \<and> (\<forall>row\<in>set cmp.
            fst (snd row) = period_total df a b (fst row)
            \<and> snd (snd row) = period_total df c d (fst row))"
    by blast
next
  fix pg
  assume "render df sel = Inr pg"
  then show "comparison df (period1 sel) (period2 sel) = Inr (pg_comparison pg)"
    by (rule render_page)
next
  fix pg pg' dr cats pays
  assume "render df sel = Inr pg
    \<and> render df (sel\<lparr>date_range := dr, categories := cats, payees := pays\<rparr>) = Inr pg'"
  then have "comparison df (period1 sel) (period2 sel) = Inr (pg_comparison pg)"
    and "comparison df (period1 sel) (period2 sel) = Inr (pg_comparison pg')"
    using render_page(10) [of df sel pg]
      render_page(10) [of df "sel\<lparr>date_range := dr, categories := cats, payees := pays\<rparr>" pg']
    by simp_all
  then show "pg_comparison pg' = pg_comparison pg"
    by simp
qed

text \<open>
  The first two days of January against the fifth: Food 30 and 7, Transport 5 and no
  value. The page shows the same table when the filter is set to the category Rent
  alone, which has no row in either period.
\<close>

theorem comparison_from_unfiltered_witness:
  "comparison ex_df [19723, 19724] [19727, 19727]
     = Inr [(''Food'', Some 30, Some 7), (''Transport'', Some 5, None)]
   \<and> period_total ex_df 19723 19724 ''Transport'' = Some 5
   \<and> period_total ex_df 19727 19727 ''Transport'' = None
   \<and> (\<exists>pg pg'. render ex_df ex_sel = Inr pg
         \<and> render ex_df (ex_sel\<lparr>date_range := (19723, 19727), categories := [''Rent''],
               payees := []\<rparr>) = Inr pg'
         \<and> pg_comparison pg = [(''Food'', Some 30, Some 7), (''Transport'', Some 5, None)]
         \<and> pg_comparison pg' = pg_comparison pg)"
proof -
  let ?sel' = "ex_sel\<lparr>date_range := (19723, 19727), categories := [''Rent''], payees := []\<rparr>"
  have e: "comparison ex_df [19723, 19724] [19727, 19727]
     = Inr [(''Food'', Some 30, Some 7), (''Transport'', Some 5, None)]"
    by code_simp
  obtain pg where r: "render ex_df ex_sel = Inr pg"
    using ex_render by blast
  have "\<exists>pg'. render ex_df ?sel' = Inr pg'"
    by (rule render_total) (simp_all add: ex_df_def ex_sel_def)
  then obtain pg' where r': "render ex_df ?sel' = Inr pg'"
    by blast
  note t = comparison_from_unfiltered [of ex_df 19723 19724 19727 19727 ex_sel]
  from t r have "comparison ex_df (period1 ex_sel) (period2 ex_sel) = Inr (pg_comparison pg)"
    by blast
  with e have p: "pg_comparison pg = [(''Food'', Some 30, Some 7), (''Transport'', Some 5, None)]"
    by (simp add: ex_sel_def)
  from t r r' have q: "pg_comparison pg' = pg_comparison pg"
    by blast
  from t e have "\<forall>row\<in>set [(''Food'', Some 30, Some 7),
        (''Transport'', Some (5::real), None :: real option)].
      fst (snd row) = period_total ex_df 19723 19724 (fst row)
      \<and> snd (snd row) = period_total ex_df 19727 19727 (fst row)"
    by auto
  then have "period_total ex_df 19723 19724 ''Transport'' = Some 5"
    and "period_total ex_df 19727 19727 ''Transport'' = None"
    by simp_all
  with e r r' p q show ?thesis by blast
qed

subsection \<open>The filtered table across the views\<close>

lemma describe_map:
  assumes "\<And>r. categoryName (g r) = categoryName r" and "\<And>r. amount (g r) = amount r"
  shows "describe (map g f) = describe f"
proof -
  have "categoryName \<circ> g = categoryName"
    using assms(1) by (simp add: fun_eq_iff)
  then have "map categoryName (map g f) = map categoryName f"
    by (simp only: map_map)
  moreover have "map amount (filter (\<lambda>r. categoryName r = k) (map g f))
      = map amount (filter (\<lambda>r. categoryName r = k) f)" for k
    using assms by (simp add: filter_map_key comp_def)
  ultimately show ?thesis
    unfolding describe_def by (simp only:)
qed

text \<open>
  Claim C8 says that no view changes shared state and that the monthly and the day of
  week views leave the filtered table as it was. Lines 154 and 161 assign to the
  filtered table: after the monthly view the table of the example is no longer the
  table the filter returned, and the top expenses computed afterwards are not the top
  expenses of that table.
\<close>

theorem filtered_table_mutated:
  "snd (monthly_trends ex_df) \<noteq> ex_df
   \<and> top_expenses 5 (snd (day_of_week_analysis (snd (monthly_trends ex_df))))
       \<noteq> top_expenses 5 ex_df"
proof -
  have "map month (snd (monthly_trends ex_df)) \<noteq> map month ex_df"
    by (simp add: monthly_trends_table ex_df_def ex_row_def)
  then have a: "snd (monthly_trends ex_df) \<noteq> ex_df"
    by auto
  have "map month (top_expenses 5 (map with_temporal_columns ex_df))
      = map (\<lambda>r. Some (to_period_M (date r))) (top_expenses 5 ex_df)"
    by (subst top_expenses_map) (simp_all add: with_temporal_columns_def comp_def)
  moreover have "map month (top_expenses 5 ex_df) = [None, None, None, None, None]"
    by (simp add: top_expenses_def nlargest_def ex_df_def ex_row_def)
  moreover have "length (top_expenses 5 ex_df) = 5"
    by (simp add: top_expenses_def nlargest_def ex_df_def)
  ultimately have "map month (top_expenses 5 (map with_temporal_columns ex_df))
      \<noteq> map month (top_expenses 5 ex_df)"
    by (auto simp: length_Suc_conv numeral_eq_Suc)
  then have "top_expenses 5 (map with_temporal_columns ex_df) \<noteq> top_expenses 5 ex_df"
    by auto
  with a show ?thesis
    by (simp only: temporal_table not_False_eq_True)
qed

text \<open>
  Claim C8, amended. Every view is a function of its input table and its own
  parameters. The monthly view and the day of week view each add a column to the
  filtered table, \<open>month\<close> and \<open>day_of_week\<close>, computed from the date of the row, and
  change nothing else: the rows, their order and the values of the columns the table
  had are as before. The views computed afterwards read the table with the two
  columns: the top expenses are the top expenses of the table before, each with the
  two columns added, and the top payees and the statistical summary are those of the
  table before.
\<close>

theorem temporal_views_add_columns:
  "snd (monthly_trends f) = map (\<lambda>r. r\<lparr>month := Some (to_period_M (date r))\<rparr>) f
   \<and> snd (day_of_week_analysis (snd (monthly_trends f))) = map with_temporal_columns f
   \<and> map original_columns (snd (day_of_week_analysis (snd (monthly_trends f))))
       = map original_columns f
   \<and> top_expenses n (snd (day_of_week_analysis (snd (monthly_trends f))))
       = map with_temporal_columns (top_expenses n f)
   \<and> top_payees (snd (day_of_week_analysis (snd (monthly_trends f)))) = top_payees f
   \<and> describe (snd (day_of_week_analysis (snd (monthly_trends f)))) = describe f"
proof -
  have "map original_columns (map with_temporal_columns f) = map original_columns f"
    by (simp add: original_columns_def with_temporal_columns_def)
  moreover have "top_expenses n (map with_temporal_columns f)
      = map with_temporal_columns (top_expenses n f)"
    by (rule top_expenses_map) (simp add: with_temporal_columns_def)
  moreover have "top_payees (map with_temporal_columns f) = top_payees f"
    unfolding top_payees_def
    by (subst groupby_sum_map) (simp_all add: with_temporal_columns_def)
  moreover have "describe (map with_temporal_columns f) = describe f"
    by (rule describe_map) (simp_all add: with_temporal_columns_def)
  ultimately show ?thesis
    unfolding temporal_table by (simp add: monthly_trends_table)
qed

text \<open>On the example table: January 2024 is month 648, and 1 January 2024 is a Monday.\<close>

theorem temporal_views_add_columns_witness:
  "map month (snd (day_of_week_analysis (snd (monthly_trends [ex_df ! 0])))) = [Some 648]
   \<and> map day_of_week (snd (day_of_week_analysis (snd (monthly_trends [ex_df ! 0]))))
       = [Some ''Monday'']
   \<and> map original_columns (snd (day_of_week_analysis (snd (monthly_trends ex_df))))
       = map original_columns ex_df
   \<and> top_payees (snd (day_of_week_analysis (snd (monthly_trends ex_df))))
       = [(''Landlord'', 40), (''Market'', 20), (''Cafe'', 17), (''Metro'', 10)]"
proof -
  have a: "with_temporal_columns (ex_df ! 0)
      = (ex_df ! 0)\<lparr>month := Some 648, day_of_week := Some ''Monday''\<rparr>"
    by code_simp
  have b: "top_payees ex_df = [(''Landlord'', 40), (''Market'', 20), (''Cafe'', 17), (''Metro'', 10)]"
    by code_simp
  from temporal_views_add_columns [of "[ex_df ! 0]"]
  have "snd (day_of_week_analysis (snd (monthly_trends [ex_df ! 0])))
      = map with_temporal_columns [ex_df ! 0]"
    by blast
  with a have c: "snd (day_of_week_analysis (snd (monthly_trends [ex_df ! 0])))
      = [(ex_df ! 0)\<lparr>month := Some 648, day_of_week := Some ''Monday''\<rparr>]"
    by simp
  from temporal_views_add_columns [of ex_df]
  have "map original_columns (snd (day_of_week_analysis (snd (monthly_trends ex_df))))
      = map original_columns ex_df"
    and "top_payees (snd (day_of_week_analysis (snd (monthly_trends ex_df)))) = top_payees ex_df"
    by blast+
  with b c show ?thesis
    by simp
qed

end
